theory Spec2Isabelle
  imports Main "HOL-Library.Word"
begin

unbundle bit_operations_syntax

section \<open>The mono camera node of avt\_vimba\_camera (src/mono\_camera.cpp)\<close>

text \<open>
  The file is glue between four collaborators that it does not define: the camera
  session, the Vimba API wrapper, the image publisher and the camera-info manager.
  Their state is one abstract world \<open>'w\<close>; each of their operations is a parameter that
  takes the world and returns the new world together with either a result or the
  exception it threw. The node records every call it makes, with its outcome, in
  \<open>trace\<close>, so that what the node did is observable whatever the collaborators are.
\<close>

subsection \<open>Messages and configuration\<close>

text \<open>
  The message types follow the ROS definitions of std\_msgs/Header,
  sensor\_msgs/RegionOfInterest, sensor\_msgs/CameraInfo and sensor\_msgs/Image.
  A \<open>float64\<close> is carried as its 64-bit pattern: the node copies such values and never
  computes with them.
\<close>

type_synonym uint8 = "8 word"
type_synonym uint32 = "32 word"
type_synonym float64 = "64 word"

record ros_time =
  sec :: uint32
  nsec :: uint32

record header =
  hdr_seq :: uint32
  hdr_stamp :: ros_time
  hdr_frame_id :: string

record region_of_interest =
  x_offset :: uint32
  y_offset :: uint32
  rect_height :: uint32
  rect_width :: uint32
  do_rectify :: bool

record camera_info =
  header :: header
  ci_height :: uint32
  ci_width :: uint32
  distortion_model :: string
  ci_D :: "float64 list"
  ci_K :: "float64 list"
  ci_R :: "float64 list"
  ci_P :: "float64 list"
  ci_binning_x :: uint32
  ci_binning_y :: uint32
  roi :: region_of_interest

record image =
  img_header :: header
  img_height :: uint32
  img_width :: uint32
  encoding :: string
  is_bigendian :: uint8
  step :: uint32
  data :: "uint8 list"

text \<open>
  The fields of \<open>AvtVimbaCameraConfig\<close> that the file reads. They are C \<open>int\<close>s; an
  assignment to a \<open>uint32\<close> field and a comparison with one both convert the \<open>int\<close> to
  \<open>uint32\<close>, which keeps the 32 bits, so the fields are modelled by their bit patterns.
\<close>

record config =
  frame_id :: string
  height :: uint32
  width :: uint32
  binning_x :: uint32
  binning_y :: uint32
  roi_offset_x :: uint32
  roi_offset_y :: uint32
  roi_height :: uint32
  roi_width :: uint32
  camera_info_url :: string

subsection \<open>Exceptions, collaborators and the node\<close>

text \<open>
  \<open>StdException what\<close> is any exception derived from \<open>std::exception\<close>, with the text
  of \<open>what()\<close>; \<open>OtherException\<close> is a thrown object of any other type.
\<close>

datatype exn = StdException string | OtherException

text \<open>
  Every call the node makes, with its arguments and its outcome (\<open>Inl\<close> the exception
  thrown, \<open>Inr\<close> the value returned), and every line it logs.
\<close>

datatype 'f event =
    CamStop "exn + unit"
  | CamStart string string "exn + unit"
  | CamUpdateConfig config "exn + unit"
  | GetCameraInfo "exn + camera_info"
  | SetCameraName string "exn + bool"
  | ValidateURL string "exn + bool"
  | LoadCameraInfo string "exn + bool"
  | SetCameraInfo camera_info "exn + bool"
  | TimeNow "exn + ros_time"
  | GetNumSubscribers "exn + uint32"
  | FrameToImage 'f "exn + bool \<times> image"
  | Publish image camera_info "exn + unit"
  | RosWarn string
  | RosError string

text \<open>
  What the file uses and does not define: the two constants of
  \<open>driver_base::SensorLevels\<close> and the operations of the collaborators.
  \<open>frameToImage\<close> returns its success flag together with the image it filled in.
  The declaration of the session's \<open>updateConfig\<close> is not in the file; as in the
  interface description (\<open>applyConfig(cfg)\<close>) it takes the configuration and leaves
  the caller's copy as it is.
\<close>

record ('w, 'f) deps =
  RECONFIGURE_CLOSE :: uint32
  RECONFIGURE_STOP :: uint32
  cam_stop :: "'w \<Rightarrow> (exn + unit) \<times> 'w"
  cam_start :: "string \<Rightarrow> string \<Rightarrow> 'w \<Rightarrow> (exn + unit) \<times> 'w"
  cam_updateConfig :: "config \<Rightarrow> 'w \<Rightarrow> (exn + unit) \<times> 'w"
  getCameraInfo :: "'w \<Rightarrow> (exn + camera_info) \<times> 'w"
  setCameraName :: "string \<Rightarrow> 'w \<Rightarrow> (exn + bool) \<times> 'w"
  validateURL :: "string \<Rightarrow> 'w \<Rightarrow> (exn + bool) \<times> 'w"
  loadCameraInfo :: "string \<Rightarrow> 'w \<Rightarrow> (exn + bool) \<times> 'w"
  setCameraInfo :: "camera_info \<Rightarrow> 'w \<Rightarrow> (exn + bool) \<times> 'w"
  time_now :: "'w \<Rightarrow> (exn + ros_time) \<times> 'w"
  getNumSubscribers :: "'w \<Rightarrow> (exn + uint32) \<times> 'w"
  frameToImage :: "'f \<Rightarrow> 'w \<Rightarrow> (exn + bool \<times> image) \<times> 'w"
  publish :: "image \<Rightarrow> camera_info \<Rightarrow> 'w \<Rightarrow> (exn + unit) \<times> 'w"

text \<open>
  The members of \<open>MonoCamera\<close> that the two callbacks read (\<open>m_ip\<close>, \<open>m_guid\<close> and
  \<open>m_camera_info_url\<close> are the source's \<^verbatim>\<open>ip_\<close>, \<^verbatim>\<open>guid_\<close> and \<^verbatim>\<open>camera_info_url_\<close>),
  the world of the collaborators, and the trace.
\<close>

record ('w, 'f) node =
  m_ip :: string
  m_guid :: string
  m_camera_info_url :: string
  world :: 'w
  trace :: "'f event list"

subsection \<open>Sequencing with exceptions\<close>

type_synonym ('a, 's) prog = "'s \<Rightarrow> (exn + 'a) \<times> 's"

definition ret :: "'a \<Rightarrow> ('a, 's) prog" where
  "ret a s = (Inr a, s)"

text \<open>Run \<open>m\<close>, then \<open>f\<close> on its result; an exception of \<open>m\<close> skips \<open>f\<close>.\<close>

definition andThen :: "('a, 's) prog \<Rightarrow> ('a \<Rightarrow> ('b, 's) prog) \<Rightarrow> ('b, 's) prog" where
  "andThen m f s = (case m s of (Inl e, s') \<Rightarrow> (Inl e, s') | (Inr a, s') \<Rightarrow> f a s')"

text \<open>A call to a collaborator: the world moves on and the call is recorded.\<close>

definition call ::
  "(exn + 'a \<Rightarrow> 'f event) \<Rightarrow> ('w \<Rightarrow> (exn + 'a) \<times> 'w) \<Rightarrow> ('a, ('w, 'f) node) prog" where
  "call ev op s =
     (case op (world s) of (r, w') \<Rightarrow> (r, s\<lparr>world := w', trace := trace s @ [ev r]\<rparr>))"

definition ros_log :: "'f event \<Rightarrow> (unit, ('w, 'f) node) prog" where
  "ros_log ev s = (Inr (), s\<lparr>trace := trace s @ [ev]\<rparr>)"

text \<open>
  \<^verbatim>\<open>try { body } catch (const std::exception& e) { handler(e.what()) }\<close>: an exception
  of another type passes through.
\<close>

definition catch_std :: "('a, 's) prog \<Rightarrow> (string \<Rightarrow> ('a, 's) prog) \<Rightarrow> ('a, 's) prog" where
  "catch_std body handler s =
     (case body s of
        (Inl (StdException what), s') \<Rightarrow> handler what s'
      | (Inl OtherException, s') \<Rightarrow> (Inl OtherException, s')
      | (Inr a, s') \<Rightarrow> (Inr a, s'))"

text \<open>The events a run added to the trace.\<close>

definition events_since :: "('w, 'f) node \<Rightarrow> ('w, 'f) node \<Rightarrow> 'f event list" where
  "events_since s s' = drop (length (trace s)) (trace s')"

text \<open>The exception an event ended with, if any.\<close>

definition exn_of :: "exn + 'a \<Rightarrow> exn option" where
  "exn_of r = (case r of Inl e \<Rightarrow> Some e | Inr _ \<Rightarrow> None)"

fun thrown :: "'f event \<Rightarrow> exn option" where
  "thrown (CamStop r) = exn_of r"
| "thrown (CamStart _ _ r) = exn_of r"
| "thrown (CamUpdateConfig _ r) = exn_of r"
| "thrown (GetCameraInfo r) = exn_of r"
| "thrown (SetCameraName _ r) = exn_of r"
| "thrown (ValidateURL _ r) = exn_of r"
| "thrown (LoadCameraInfo _ r) = exn_of r"
| "thrown (SetCameraInfo _ r) = exn_of r"
| "thrown (TimeNow r) = exn_of r"
| "thrown (GetNumSubscribers r) = exn_of r"
| "thrown (FrameToImage _ r) = exn_of r"
| "thrown (Publish _ _ r) = exn_of r"
| "thrown (RosWarn _) = None"
| "thrown (RosError _) = None"

subsection \<open>MonoCamera::frameCallback\<close>

definition frameCallback :: "('w, 'f) deps \<Rightarrow> 'f \<Rightarrow> (unit, ('w, 'f) node) prog" where
  "frameCallback E vimba_frame_ptr =
     andThen (call TimeNow (time_now E)) (\<lambda>ros_time.
     andThen (call GetNumSubscribers (getNumSubscribers E)) (\<lambda>n.
       if n > 0 then
         andThen (call (FrameToImage vimba_frame_ptr) (frameToImage E vimba_frame_ptr))
           (\<lambda>(ok, img).
             if ok then
               andThen (call GetCameraInfo (getCameraInfo E)) (\<lambda>ci.
                 let img' = img\<lparr>img_header := (img_header img)\<lparr>hdr_stamp := ros_time\<rparr>\<rparr>;
                     ci' = ci\<lparr>header := (header ci)\<lparr>hdr_stamp := ros_time\<rparr>\<rparr>
                 in call (Publish img' ci') (publish E img' ci'))
             else
               ros_log (RosWarn ''Function frameToImage returned 0. No image published.''))
       else ret ()))"

subsection \<open>MonoCamera::updateCameraInfo\<close>

text \<open>
  The function has two straight-line blocks that only assign fields of the local record
  \<open>ci\<close>. \<open>fillFromConfig\<close> is the first (the frame id, the operational parameters
  and the region of interest are copied from the configuration); \<open>checkRectify\<close> is the
  last (the two comparisons and the assignment of \<open>do_rectify\<close>).
\<close>

definition fillFromConfig :: "config \<Rightarrow> camera_info \<Rightarrow> camera_info" where
  "fillFromConfig config ci0 =
     (let ci1 = ci0\<lparr>header := (header ci0)\<lparr>hdr_frame_id := frame_id config\<rparr>\<rparr>;
          ci2 = ci1\<lparr>ci_height := height config,
                    ci_width := width config,
                    ci_binning_x := binning_x config,
                    ci_binning_y := binning_y config\<rparr>
      in ci2\<lparr>roi := (roi ci2)\<lparr>x_offset := roi_offset_x config,
                                 y_offset := roi_offset_y config,
                                 rect_height := roi_height config,
                                 rect_width := roi_width config\<rparr>\<rparr>)"

definition checkRectify :: "config \<Rightarrow> camera_info \<Rightarrow> camera_info" where
  "checkRectify config ci =
     (let roiMatchesCalibration =
            (ci_height ci = roi_height config \<and> ci_width ci = roi_width config);
          resolutionMatchesCalibration =
            (ci_width ci = width config \<and> ci_height ci = height config)
      in ci\<lparr>roi := (roi ci)\<lparr>do_rectify :=
              roiMatchesCalibration \<or> resolutionMatchesCalibration\<rparr>\<rparr>)"

definition updateCameraInfo :: "('w, 'f) deps \<Rightarrow> config \<Rightarrow> (unit, ('w, 'f) node) prog" where
  "updateCameraInfo E config =
     andThen (call GetCameraInfo (getCameraInfo E)) (\<lambda>ci0.
     andThen
       (\<lambda>s. if camera_info_url config \<noteq> m_camera_info_url s then
              andThen (call (SetCameraName (frame_id config))
                            (setCameraName E (frame_id config))) (\<lambda>_.
              andThen (call (ValidateURL (camera_info_url config))
                            (validateURL E (camera_info_url config))) (\<lambda>valid.
                if valid then
                  andThen (call (LoadCameraInfo (camera_info_url config))
                                (loadCameraInfo E (camera_info_url config))) (\<lambda>_.
                  call GetCameraInfo (getCameraInfo E))
                else
                  andThen (ros_log (RosWarn (''Camera info URL not valid: ''
                                               @ camera_info_url config))) (\<lambda>_.
                  ret (fillFromConfig config ci0)))) s
            else ret (fillFromConfig config ci0) s)
       (\<lambda>ci.
         andThen (call (SetCameraInfo (checkRectify config ci))
                       (setCameraInfo E (checkRectify config ci))) (\<lambda>_.
         ret ())))"

subsection \<open>MonoCamera::configure\<close>

text \<open>
  \<open>newconfig\<close> is passed by reference: the configuration as the call leaves it is the
  result of a call that returns. The two branches that restart the session have the
  same three calls, written once as \<open>restartAndUpdate\<close>.
\<close>

definition restartAndUpdate :: "('w, 'f) deps \<Rightarrow> config \<Rightarrow> (unit, ('w, 'f) node) prog" where
  "restartAndUpdate E newconfig =
     andThen (call CamStop (cam_stop E)) (\<lambda>_.
     andThen (\<lambda>s. call (CamStart (m_ip s) (m_guid s)) (cam_start E (m_ip s) (m_guid s)) s) (\<lambda>_.
     call (CamUpdateConfig newconfig) (cam_updateConfig E newconfig)))"

text \<open>The first statement of the \<open>try\<close> block: an empty frame id becomes \<open>camera\<close>.\<close>

definition defaultFrameId :: "config \<Rightarrow> config" where
  "defaultFrameId newconfig =
     (if frame_id newconfig = '''' then newconfig\<lparr>frame_id := ''camera''\<rparr> else newconfig)"

definition configure ::
  "('w, 'f) deps \<Rightarrow> config \<Rightarrow> uint32 \<Rightarrow> (config, ('w, 'f) node) prog" where
  "configure E newconfig0 level =
     (let newconfig = defaultFrameId newconfig0
      in andThen
           (catch_std
              (andThen
                 (if level AND RECONFIGURE_CLOSE E \<noteq> 0 then restartAndUpdate E newconfig
                  else if level AND RECONFIGURE_STOP E \<noteq> 0 then restartAndUpdate E newconfig
                  else call (CamUpdateConfig newconfig) (cam_updateConfig E newconfig))
                 (\<lambda>_. updateCameraInfo E newconfig))
              (\<lambda>what. ros_log (RosError (''Error reconfiguring mono_camera node : '' @ what))))
           (\<lambda>_. ret newconfig))"

subsection \<open>Calibration data\<close>

text \<open>
  The intrinsic and extrinsic data of a calibration record: the distortion model and
  the matrices D, K, R and P. The file never assigns these fields; they change only
  when the manager hands out another record.
\<close>

definition calibration_data ::
  "camera_info \<Rightarrow> string \<times> float64 list \<times> float64 list \<times> float64 list \<times> float64 list" where
  "calibration_data ci = (distortion_model ci, ci_D ci, ci_K ci, ci_R ci, ci_P ci)"

subsection \<open>A simulated set of collaborators\<close>

text \<open>
  A small executable stand-in for the collaborators, used to run the node on concrete
  inputs. The manager keeps one current record; \<open>files\<close> says which calibration each
  valid URL holds; \<open>convert\<close> says which image, if any, a frame converts to; \<open>reject\<close>
  says which exception, if any, the camera session throws at a configuration; the
  publisher appends each published pair to a list. A frame is a number.
\<close>

record sim_world =
  sim_cam_info :: camera_info
  sim_camera_name :: string
  sim_streaming :: bool
  sim_session :: "config option"
  sim_subscribers :: uint32
  sim_clock :: ros_time
  sim_published :: "(image \<times> camera_info) list"

definition empty_header :: header where
  "empty_header = \<lparr>hdr_seq = 0, hdr_stamp = \<lparr>sec = 0, nsec = 0\<rparr>, hdr_frame_id = ''''\<rparr>"

definition empty_image :: image where
  "empty_image = \<lparr>img_header = empty_header, img_height = 0, img_width = 0, encoding = '''',
                   is_bigendian = 0, step = 0, data = []\<rparr>"

definition sim_deps ::
  "(string \<Rightarrow> camera_info option) \<Rightarrow> (nat \<Rightarrow> image option) \<Rightarrow> (config \<Rightarrow> exn option) \<Rightarrow>
   (sim_world, nat) deps" where
  "sim_deps files convert reject =
     \<lparr>RECONFIGURE_CLOSE = 3,
      RECONFIGURE_STOP = 1,
      cam_stop = (\<lambda>w. (Inr (), w\<lparr>sim_streaming := False\<rparr>)),
      cam_start = (\<lambda>ip guid w. (Inr (), w\<lparr>sim_streaming := True\<rparr>)),
      cam_updateConfig = (\<lambda>c w. case reject c of
                                    Some e \<Rightarrow> (Inl e, w)
                                  | None \<Rightarrow> (Inr (), w\<lparr>sim_session := Some c\<rparr>)),
      getCameraInfo = (\<lambda>w. (Inr (sim_cam_info w), w)),
      setCameraName = (\<lambda>n w. (Inr True, w\<lparr>sim_camera_name := n\<rparr>)),
      validateURL = (\<lambda>u w. (Inr (files u \<noteq> None), w)),
      loadCameraInfo = (\<lambda>u w. case files u of
                                  None \<Rightarrow> (Inr False, w)
                                | Some ci \<Rightarrow> (Inr True, w\<lparr>sim_cam_info := ci\<rparr>)),
      setCameraInfo = (\<lambda>ci w. (Inr True, w\<lparr>sim_cam_info := ci\<rparr>)),
      time_now = (\<lambda>w. (Inr (sim_clock w), w)),
      getNumSubscribers = (\<lambda>w. (Inr (sim_subscribers w), w)),
      frameToImage = (\<lambda>f w. (Inr (case convert f of
                                      None \<Rightarrow> (False, empty_image)
                                    | Some img \<Rightarrow> (True, img)), w)),
      publish = (\<lambda>img ci w. (Inr (), w\<lparr>sim_published := sim_published w @ [(img, ci)]\<rparr>))\<rparr>"

text \<open>
  A calibration for a 640 x 480 sensor, as a calibration file holds it: no frame id,
  no binning, no region of interest.
\<close>

definition calib_vga :: camera_info where
  "calib_vga =
     \<lparr>header = empty_header, ci_height = 480, ci_width = 640,
      distortion_model = ''plumb_bob'', ci_D = [1, 2, 3, 4, 5],
      ci_K = [6, 0, 7, 0, 8, 9, 0, 0, 10], ci_R = [10, 0, 0, 0, 10, 0, 0, 0, 10],
      ci_P = [6, 0, 7, 0, 0, 8, 9, 0, 0, 0, 10, 0],
      ci_binning_x = 0, ci_binning_y = 0,
      roi = \<lparr>x_offset = 0, y_offset = 0, rect_height = 0, rect_width = 0,
             do_rectify = False\<rparr>\<rparr>"

definition sim_files :: "string \<Rightarrow> camera_info option" where
  "sim_files u = (if u = ''file:///vga.yaml'' then Some calib_vga else None)"

definition sim_image :: image where
  "sim_image = \<lparr>img_header = empty_header, img_height = 1, img_width = 2,
                 encoding = ''mono8'', is_bigendian = 0, step = 2, data = [17, 34]\<rparr>"

text \<open>Frame 1 converts, every other frame does not.\<close>

definition sim_convert :: "nat \<Rightarrow> image option" where
  "sim_convert f = (if f = 1 then Some sim_image else None)"

text \<open>A session that throws \<open>e\<close> at a configuration of height 0 and accepts the others.\<close>

definition sim_reject :: "exn \<Rightarrow> config \<Rightarrow> exn option" where
  "sim_reject e c = (if height c = 0 then Some e else None)"

definition sim :: "(sim_world, nat) deps" where
  "sim = sim_deps sim_files sim_convert (sim_reject (StdException ''height''))"

definition sim_node :: "uint32 \<Rightarrow> (sim_world, nat) node" where
  "sim_node subscribers =
     \<lparr>m_ip = ''192.168.0.2'', m_guid = '''', m_camera_info_url = '''',
      world = \<lparr>sim_cam_info = calib_vga, sim_camera_name = ''camera'', sim_streaming = True,
               sim_session = None, sim_subscribers = subscribers,
               sim_clock = \<lparr>sec = 1000, nsec = 5\<rparr>, sim_published = []\<rparr>,
      trace = []\<rparr>"

text \<open>
  A request for a 200 x 100 image with a 60 x 50 region of interest; \<open>fid\<close> is the
  requested frame id and \<open>url\<close> the requested calibration URL.
\<close>

definition sim_config :: "string \<Rightarrow> string \<Rightarrow> config" where
  "sim_config fid url =
     \<lparr>frame_id = fid, height = 100, width = 200, binning_x = 1, binning_y = 1,
      roi_offset_x = 8, roi_offset_y = 4, roi_height = 50, roi_width = 60,
      camera_info_url = url\<rparr>"

text \<open>
  A second calibration: that of \<open>calib_vga\<close> with other distortion coefficients.
\<close>

definition calib_other :: camera_info where
  "calib_other = calib_vga\<lparr>ci_D := [5, 4, 3, 2, 1]\<rparr>"

text \<open>
  A calibration source that keeps one file per camera name: in the URL
  \<open>file:///NAME.yaml\<close> the manager puts the name of the selected profile for \<open>NAME\<close>.
  The file of \<open>cam0\<close> holds \<open>calib_vga\<close>, the file of any other name \<open>calib_other\<close>.
\<close>

definition sim_named_files :: "string \<Rightarrow> string \<Rightarrow> camera_info option" where
  "sim_named_files name u =
     (if u = ''file:///NAME.yaml''
      then Some (if name = ''cam0'' then calib_vga else calib_other)
      else None)"

definition sim_named :: "(sim_world, nat) deps" where
  "sim_named =
     sim\<lparr>validateURL := (\<lambda>u w. (Inr (sim_named_files (sim_camera_name w) u \<noteq> None), w)),
         loadCameraInfo := (\<lambda>u w. case sim_named_files (sim_camera_name w) u of
                                     None \<Rightarrow> (Inr False, w)
                                   | Some ci \<Rightarrow> (Inr True, w\<lparr>sim_cam_info := ci\<rparr>))\<rparr>"

subsection \<open>Notions used to describe the runs of configure\<close>

text \<open>
  A call to the camera session; an \<open>updateConfig\<close> among them carries \<open>cfg\<close>.
\<close>

fun session_event :: "config \<Rightarrow> 'f event \<Rightarrow> bool" where
  "session_event cfg (CamStop _) = True"
| "session_event cfg (CamStart _ _ _) = True"
| "session_event cfg (CamUpdateConfig c _) = (c = cfg)"
| "session_event cfg _ = False"

text \<open>Calls to the camera session that all returned.\<close>

definition session_ok :: "config \<Rightarrow> 'f event list \<Rightarrow> bool" where
  "session_ok cfg evs = list_all (\<lambda>e. session_event cfg e \<and> thrown e = None) evs"

text \<open>What the handler of \<open>configure\<close> logs when the \<open>try\<close> block ends with \<open>r\<close>.\<close>

definition error_log :: "exn + unit \<Rightarrow> 'f event list" where
  "error_log r =
     (case r of
        Inl (StdException what) \<Rightarrow>
          [RosError (''Error reconfiguring mono_camera node : '' @ what)]
      | Inl OtherException \<Rightarrow> []
      | Inr _ \<Rightarrow> [])"

text \<open>What \<open>configure\<close> returns when the \<open>try\<close> block ends with \<open>r\<close>.\<close>

definition after_catch :: "config \<Rightarrow> exn + unit \<Rightarrow> exn + config" where
  "after_catch cfg r =
     (case r of
        Inl (StdException what) \<Rightarrow> Inr cfg
      | Inl OtherException \<Rightarrow> Inl OtherException
      | Inr _ \<Rightarrow> Inr cfg)"

text \<open>The outcome of a call whose result the node ignores.\<close>

definition ignore_result :: "exn + 'a \<Rightarrow> exn + unit" where
  "ignore_result x = (case x of Inl e \<Rightarrow> Inl e | Inr _ \<Rightarrow> Inr ())"

section \<open>Running the programs\<close>

lemma andThenE:
  assumes "andThen m f s = (r, s')"
  obtains (throw) e where "m s = (Inl e, s')" "r = Inl e"
        | (cont) a s1 where "m s = (Inr a, s1)" "f a s1 = (r, s')"
  using assms by (auto simp: andThen_def split: prod.splits sum.splits)

lemma retE:
  assumes "ret a s = (r, s')"
  obtains "r = Inr a" "s' = s"
  using assms by (auto simp: ret_def)

lemma catch_stdE:
  assumes "catch_std body h s = (r, s')"
  obtains (ok) a where "body s = (Inr a, s')" "r = Inr a"
        | (other) "body s = (Inl OtherException, s')" "r = Inl OtherException"
        | (caught) what s1 where "body s = (Inl (StdException what), s1)" "h what s1 = (r, s')"
  using assms by (auto simp: catch_std_def split: prod.splits sum.splits exn.splits)

lemma call_traceE:
  assumes "call ev op s = (r, s')"
  obtains "trace s' = trace s @ [ev r]" "m_camera_info_url s' = m_camera_info_url s"
  using assms by (auto simp: call_def split: prod.splits)

lemma ros_log_traceE:
  assumes "ros_log ev s = (r, s')"
  obtains "r = Inr ()" "trace s' = trace s @ [ev]" "m_camera_info_url s' = m_camera_info_url s"
  using assms by (auto simp: ros_log_def)

lemmas traceE = andThenE call_traceE ros_log_traceE retE catch_stdE

lemma call_membersE:
  assumes "call ev op s = (r, s')"
  obtains "m_ip s' = m_ip s" "m_guid s' = m_guid s" "m_camera_info_url s' = m_camera_info_url s"
  using assms by (auto simp: call_def split: prod.splits)

lemma ros_log_membersE:
  assumes "ros_log ev s = (r, s')"
  obtains "m_ip s' = m_ip s" "m_guid s' = m_guid s" "m_camera_info_url s' = m_camera_info_url s"
  using assms by (auto simp: ros_log_def)

lemmas membersE = andThenE call_membersE ros_log_membersE retE catch_stdE

lemma events_since_append: "trace s' = trace s @ evs \<Longrightarrow> events_since s s' = evs"
  by (simp add: events_since_def)

lemma updateCameraInfo_members:
  assumes "updateCameraInfo E config s = (r, s')"
  shows "m_ip s' = m_ip s \<and> m_guid s' = m_guid s \<and> m_camera_info_url s' = m_camera_info_url s"
  using assms unfolding updateCameraInfo_def
  by (auto elim!: membersE split: if_splits)

lemma configure_members:
  assumes "configure E newconfig level s = (r, s')"
  shows "m_ip s' = m_ip s \<and> m_guid s' = m_guid s \<and> m_camera_info_url s' = m_camera_info_url s"
  using assms unfolding configure_def restartAndUpdate_def Let_def
  by (auto elim!: membersE dest!: updateCameraInfo_members split: if_splits)

lemma updateCameraInfo_cases:
  assumes "updateCameraInfo E config s = (r, s')"
  obtains
    (get_throws) e where
      "trace s' = trace s @ [GetCameraInfo (Inl e)]" "r = Inl e"
  | (same_url) ci0 x where
      "camera_info_url config = m_camera_info_url s"
      "trace s' = trace s @ [GetCameraInfo (Inr ci0),
                 SetCameraInfo (checkRectify config (fillFromConfig config ci0)) x]"
      "r = ignore_result x"
  | (name_throws) ci0 e where
      "camera_info_url config \<noteq> m_camera_info_url s"
      "trace s' = trace s @ [GetCameraInfo (Inr ci0), SetCameraName (frame_id config) (Inl e)]"
      "r = Inl e"
  | (validate_throws) ci0 b e where
      "camera_info_url config \<noteq> m_camera_info_url s"
      "trace s' = trace s @ [GetCameraInfo (Inr ci0), SetCameraName (frame_id config) (Inr b),
                 ValidateURL (camera_info_url config) (Inl e)]"
      "r = Inl e"
  | (invalid_url) ci0 b x where
      "camera_info_url config \<noteq> m_camera_info_url s"
      "trace s' = trace s @ [GetCameraInfo (Inr ci0), SetCameraName (frame_id config) (Inr b),
                 ValidateURL (camera_info_url config) (Inr False),
                 RosWarn (''Camera info URL not valid: '' @ camera_info_url config),
                 SetCameraInfo (checkRectify config (fillFromConfig config ci0)) x]"
      "r = ignore_result x"
  | (load_throws) ci0 b e where
      "camera_info_url config \<noteq> m_camera_info_url s"
      "trace s' = trace s @ [GetCameraInfo (Inr ci0), SetCameraName (frame_id config) (Inr b),
                 ValidateURL (camera_info_url config) (Inr True),
                 LoadCameraInfo (camera_info_url config) (Inl e)]"
      "r = Inl e"
  | (reget_throws) ci0 b b' e where
      "camera_info_url config \<noteq> m_camera_info_url s"
      "trace s' = trace s @ [GetCameraInfo (Inr ci0), SetCameraName (frame_id config) (Inr b),
                 ValidateURL (camera_info_url config) (Inr True),
                 LoadCameraInfo (camera_info_url config) (Inr b'),
                 GetCameraInfo (Inl e)]"
      "r = Inl e"
  | (loaded) ci0 b b' ci1 x where
      "camera_info_url config \<noteq> m_camera_info_url s"
      "trace s' = trace s @ [GetCameraInfo (Inr ci0), SetCameraName (frame_id config) (Inr b),
                 ValidateURL (camera_info_url config) (Inr True),
                 LoadCameraInfo (camera_info_url config) (Inr b'),
                 GetCameraInfo (Inr ci1),
                 SetCameraInfo (checkRectify config ci1) x]"
      "r = ignore_result x"
  using assms unfolding updateCameraInfo_def
  by (auto elim!: traceE simp: ignore_result_def split: if_splits)

lemma session_run:
  assumes "(if level AND RECONFIGURE_CLOSE E \<noteq> 0 then restartAndUpdate E cfg
            else if level AND RECONFIGURE_STOP E \<noteq> 0 then restartAndUpdate E cfg
            else call (CamUpdateConfig cfg) (cam_updateConfig E cfg)) s = (r, s')"
  shows "\<exists>cam. trace s' = trace s @ cam \<and> m_camera_info_url s' = m_camera_info_url s \<and> cam \<noteq> [] \<and>
          session_ok cfg (butlast cam) \<and> session_event cfg (last cam) \<and>
          thrown (last cam) = exn_of r"
  using assms unfolding restartAndUpdate_def
  by (auto elim!: traceE simp: exn_of_def session_ok_def split: if_splits)

lemma try_block_cases:
  assumes "andThen
             (if level AND RECONFIGURE_CLOSE E \<noteq> 0 then restartAndUpdate E cfg
              else if level AND RECONFIGURE_STOP E \<noteq> 0 then restartAndUpdate E cfg
              else call (CamUpdateConfig cfg) (cam_updateConfig E cfg))
             (\<lambda>_. updateCameraInfo E cfg) s = (r, s')"
  obtains
    (session_throws) pre ev e where
      "trace s' = trace s @ pre @ [ev]" "session_ok cfg pre"
      "session_event cfg ev" "thrown ev = Some e" "r = Inl e"
  | (updated) cam s1 where
      "trace s1 = trace s @ cam" "session_ok cfg cam" "cam \<noteq> []"
      "m_camera_info_url s1 = m_camera_info_url s"
      "updateCameraInfo E cfg s1 = (r, s')"
  using assms
proof (cases rule: andThenE)
  case (throw e)
  from session_run [OF throw(1)] obtain cam where cam:
    "trace s' = trace s @ cam" "cam \<noteq> []" "session_ok cfg (butlast cam)"
    "session_event cfg (last cam)" "thrown (last cam) = Some e"
    by (auto simp: exn_of_def)
  from cam(1,2) have "trace s' = trace s @ butlast cam @ [last cam]" by simp
  with cam throw(2) show thesis by (intro session_throws)
next
  case (cont a s1)
  from session_run [OF cont(1)] obtain cam where cam:
    "trace s1 = trace s @ cam" "cam \<noteq> []" "session_ok cfg (butlast cam)"
    "session_event cfg (last cam)" "thrown (last cam) = None"
    "m_camera_info_url s1 = m_camera_info_url s"
    by (auto simp: exn_of_def)
  from cam(2-5) have "session_ok cfg (butlast cam @ [last cam])"
    unfolding session_ok_def by (simp del: append_butlast_last_id)
  with cam(2) have "session_ok cfg cam" by simp
  with cam cont(2) show thesis by (intro updated)
qed

lemma configure_catch:
  assumes "configure E newconfig level s = (r, s')"
  obtains rb sb where
    "andThen
       (if level AND RECONFIGURE_CLOSE E \<noteq> 0 then restartAndUpdate E (defaultFrameId newconfig)
        else if level AND RECONFIGURE_STOP E \<noteq> 0 then restartAndUpdate E (defaultFrameId newconfig)
        else call (CamUpdateConfig (defaultFrameId newconfig))
                  (cam_updateConfig E (defaultFrameId newconfig)))
       (\<lambda>_. updateCameraInfo E (defaultFrameId newconfig)) s = (rb, sb)"
    "trace s' = trace sb @ error_log rb"
    "r = after_catch (defaultFrameId newconfig) rb"
  using assms unfolding configure_def Let_def
  by (auto elim!: andThenE [where f = "\<lambda>_. ret _"] catch_stdE ros_log_traceE retE
           simp: error_log_def after_catch_def)

lemma defaultFrameId_url [simp]: "camera_info_url (defaultFrameId c) = camera_info_url c"
  by (simp add: defaultFrameId_def)

lemma configure_paths:
  assumes "configure E newconfig level s = (r, s')"
  obtains
    (session_failed) pre ev e where
      "session_ok (defaultFrameId newconfig) pre"
      "session_event (defaultFrameId newconfig) ev" "thrown ev = Some e"
      "events_since s s' = pre @ [ev] @ error_log (Inl e)"
      "r = after_catch (defaultFrameId newconfig) (Inl e)"
  | (fetch_failed) cam e where
      "session_ok (defaultFrameId newconfig) cam"
      "events_since s s' = cam @ [GetCameraInfo (Inl e)] @ error_log (Inl e)"
      "r = after_catch (defaultFrameId newconfig) (Inl e)"
  | (url_unchanged) cam ci0 x where
      "session_ok (defaultFrameId newconfig) cam"
      "camera_info_url newconfig = m_camera_info_url s"
      "events_since s s' =
         cam @ [GetCameraInfo (Inr ci0),
                SetCameraInfo (checkRectify (defaultFrameId newconfig)
                                 (fillFromConfig (defaultFrameId newconfig) ci0)) x]
             @ error_log (ignore_result x)"
      "r = after_catch (defaultFrameId newconfig) (ignore_result x)"
  | (naming_failed) cam ci0 e where
      "session_ok (defaultFrameId newconfig) cam"
      "camera_info_url newconfig \<noteq> m_camera_info_url s"
      "events_since s s' =
         cam @ [GetCameraInfo (Inr ci0),
                SetCameraName (frame_id (defaultFrameId newconfig)) (Inl e)]
             @ error_log (Inl e)"
      "r = after_catch (defaultFrameId newconfig) (Inl e)"
  | (validation_failed) cam ci0 b e where
      "session_ok (defaultFrameId newconfig) cam"
      "camera_info_url newconfig \<noteq> m_camera_info_url s"
      "events_since s s' =
         cam @ [GetCameraInfo (Inr ci0),
                SetCameraName (frame_id (defaultFrameId newconfig)) (Inr b),
                ValidateURL (camera_info_url newconfig) (Inl e)]
             @ error_log (Inl e)"
      "r = after_catch (defaultFrameId newconfig) (Inl e)"
  | (url_invalid) cam ci0 b x where
      "session_ok (defaultFrameId newconfig) cam"
      "camera_info_url newconfig \<noteq> m_camera_info_url s"
      "events_since s s' =
         cam @ [GetCameraInfo (Inr ci0),
                SetCameraName (frame_id (defaultFrameId newconfig)) (Inr b),
                ValidateURL (camera_info_url newconfig) (Inr False),
                RosWarn (''Camera info URL not valid: '' @ camera_info_url newconfig),
                SetCameraInfo (checkRectify (defaultFrameId newconfig)
                                 (fillFromConfig (defaultFrameId newconfig) ci0)) x]
             @ error_log (ignore_result x)"
      "r = after_catch (defaultFrameId newconfig) (ignore_result x)"
  | (load_failed) cam ci0 b e where
      "session_ok (defaultFrameId newconfig) cam"
      "camera_info_url newconfig \<noteq> m_camera_info_url s"
      "events_since s s' =
         cam @ [GetCameraInfo (Inr ci0),
                SetCameraName (frame_id (defaultFrameId newconfig)) (Inr b),
                ValidateURL (camera_info_url newconfig) (Inr True),
                LoadCameraInfo (camera_info_url newconfig) (Inl e)]
             @ error_log (Inl e)"
      "r = after_catch (defaultFrameId newconfig) (Inl e)"
  | (refetch_failed) cam ci0 b b' e where
      "session_ok (defaultFrameId newconfig) cam"
      "camera_info_url newconfig \<noteq> m_camera_info_url s"
      "events_since s s' =
         cam @ [GetCameraInfo (Inr ci0),
                SetCameraName (frame_id (defaultFrameId newconfig)) (Inr b),
                ValidateURL (camera_info_url newconfig) (Inr True),
                LoadCameraInfo (camera_info_url newconfig) (Inr b'),
                GetCameraInfo (Inl e)]
             @ error_log (Inl e)"
      "r = after_catch (defaultFrameId newconfig) (Inl e)"
  | (calibration_loaded) cam ci0 b b' ci1 x where
      "session_ok (defaultFrameId newconfig) cam"
      "camera_info_url newconfig \<noteq> m_camera_info_url s"
      "events_since s s' =
         cam @ [GetCameraInfo (Inr ci0),
                SetCameraName (frame_id (defaultFrameId newconfig)) (Inr b),
                ValidateURL (camera_info_url newconfig) (Inr True),
                LoadCameraInfo (camera_info_url newconfig) (Inr b'),
                GetCameraInfo (Inr ci1),
                SetCameraInfo (checkRectify (defaultFrameId newconfig) ci1) x]
             @ error_log (ignore_result x)"
      "r = after_catch (defaultFrameId newconfig) (ignore_result x)"
proof -
  from assms obtain rb sb where
    body: "andThen
       (if level AND RECONFIGURE_CLOSE E \<noteq> 0 then restartAndUpdate E (defaultFrameId newconfig)
        else if level AND RECONFIGURE_STOP E \<noteq> 0 then restartAndUpdate E (defaultFrameId newconfig)
        else call (CamUpdateConfig (defaultFrameId newconfig))
                  (cam_updateConfig E (defaultFrameId newconfig)))
       (\<lambda>_. updateCameraInfo E (defaultFrameId newconfig)) s = (rb, sb)"
    and tr: "trace s' = trace sb @ error_log rb"
    and r: "r = after_catch (defaultFrameId newconfig) rb"
    by (rule configure_catch)
  from body show thesis
  proof (cases rule: try_block_cases)
    case (session_throws pre ev e)
    with tr r show thesis
      by (intro session_failed [of pre ev e]) (simp_all add: events_since_append)
  next
    case (updated cam s1)
    note u = updated
    from u(5) show thesis
    proof (cases rule: updateCameraInfo_cases)
      case (get_throws e)
      with tr r u show thesis
        by (intro fetch_failed [of cam e]) (simp_all add: events_since_append)
    next
      case (same_url ci0 x)
      with tr r u show thesis
        by (intro url_unchanged [of cam ci0 x]) (simp_all add: events_since_append)
    next
      case (name_throws ci0 e)
      with tr r u show thesis
        by (intro naming_failed [of cam ci0 e]) (simp_all add: events_since_append)
    next
      case (validate_throws ci0 b e)
      with tr r u show thesis
        by (intro validation_failed [of cam ci0 b e]) (simp_all add: events_since_append)
    next
      case (invalid_url ci0 b x)
      with tr r u show thesis
        by (intro url_invalid [of cam ci0 b x]) (simp_all add: events_since_append)
    next
      case (load_throws ci0 b e)
      with tr r u show thesis
        by (intro load_failed [of cam ci0 b e]) (simp_all add: events_since_append)
    next
      case (reget_throws ci0 b b' e)
      with tr r u show thesis
        by (intro refetch_failed [of cam ci0 b b' e]) (simp_all add: events_since_append)
    next
      case (loaded ci0 b b' ci1 x)
      with tr r u show thesis
        by (intro calibration_loaded [of cam ci0 b b' ci1 x]) (simp_all add: events_since_append)
    qed
  qed
qed

subsection \<open>Facts about the recorded events\<close>

lemma session_okD:
  "session_ok cfg cam \<Longrightarrow> e \<in> set cam \<Longrightarrow> session_event cfg e \<and> thrown e = None"
  by (simp add: session_ok_def list_all_iff)

lemma session_ok_notin:
  assumes "session_ok cfg cam"
  shows "GetCameraInfo z \<notin> set cam" "SetCameraName n x \<notin> set cam"
    "ValidateURL u y \<notin> set cam" "LoadCameraInfo u y \<notin> set cam"
    "SetCameraInfo ci y \<notin> set cam" "RosWarn m \<notin> set cam" "RosError m \<notin> set cam"
  using assms by (auto simp: session_ok_def list_all_iff)

lemma session_ok_config:
  "session_ok cfg cam \<Longrightarrow> CamUpdateConfig c x \<in> set cam \<Longrightarrow> c = cfg"
  by (auto simp: session_ok_def list_all_iff)

lemma in_error_log:
  "e \<in> set (error_log r) \<longleftrightarrow>
     (\<exists>what. r = Inl (StdException what) \<and>
             e = RosError (''Error reconfiguring mono_camera node : '' @ what))"
  by (auto simp: error_log_def split: sum.splits exn.splits)

lemma error_log_notin [simp]:
  "GetCameraInfo z \<notin> set (error_log r)" "SetCameraName n x \<notin> set (error_log r)"
  "ValidateURL u y \<notin> set (error_log r)" "LoadCameraInfo u y \<notin> set (error_log r)"
  "SetCameraInfo ci y \<notin> set (error_log r)" "RosWarn m \<notin> set (error_log r)"
  "CamUpdateConfig c v \<notin> set (error_log r)"
  by (auto simp: error_log_def split: sum.splits exn.splits)

subsection \<open>Facts about the records\<close>

lemma defaultFrameId_fields [simp]:
  "frame_id (defaultFrameId c) = (if frame_id c = [] then ''camera'' else frame_id c)"
  "height (defaultFrameId c) = height c" "width (defaultFrameId c) = width c"
  "binning_x (defaultFrameId c) = binning_x c" "binning_y (defaultFrameId c) = binning_y c"
  "roi_offset_x (defaultFrameId c) = roi_offset_x c"
  "roi_offset_y (defaultFrameId c) = roi_offset_y c"
  "roi_height (defaultFrameId c) = roi_height c" "roi_width (defaultFrameId c) = roi_width c"
  by (simp_all add: defaultFrameId_def)

lemma fillFromConfig_fields [simp]:
  "hdr_frame_id (header (fillFromConfig c ci)) = frame_id c"
  "ci_height (fillFromConfig c ci) = height c" "ci_width (fillFromConfig c ci) = width c"
  "ci_binning_x (fillFromConfig c ci) = binning_x c"
  "ci_binning_y (fillFromConfig c ci) = binning_y c"
  "x_offset (roi (fillFromConfig c ci)) = roi_offset_x c"
  "y_offset (roi (fillFromConfig c ci)) = roi_offset_y c"
  "rect_height (roi (fillFromConfig c ci)) = roi_height c"
  "rect_width (roi (fillFromConfig c ci)) = roi_width c"
  by (simp_all add: fillFromConfig_def)

lemma checkRectify_fields [simp]:
  "header (checkRectify c ci) = header ci"
  "ci_height (checkRectify c ci) = ci_height ci" "ci_width (checkRectify c ci) = ci_width ci"
  "ci_binning_x (checkRectify c ci) = ci_binning_x ci"
  "ci_binning_y (checkRectify c ci) = ci_binning_y ci"
  "x_offset (roi (checkRectify c ci)) = x_offset (roi ci)"
  "y_offset (roi (checkRectify c ci)) = y_offset (roi ci)"
  "rect_height (roi (checkRectify c ci)) = rect_height (roi ci)"
  "rect_width (roi (checkRectify c ci)) = rect_width (roi ci)"
  "do_rectify (roi (checkRectify c ci)) \<longleftrightarrow>
     ci_height ci = roi_height c \<and> ci_width ci = roi_width c \<or>
     ci_width ci = width c \<and> ci_height ci = height c"
  by (simp_all add: checkRectify_def)

lemma calibration_data_fill [simp]:
  "calibration_data (fillFromConfig config ci) = calibration_data ci"
  by (simp add: calibration_data_def fillFromConfig_def)

lemma calibration_data_check [simp]:
  "calibration_data (checkRectify config ci) = calibration_data ci"
  by (simp add: calibration_data_def checkRectify_def)

subsection \<open>The record that configure stores\<close>

text \<open>
  Without a load in the call, the stored record is the manager's record with the
  requested fields copied in and the flag set; after a load it is the record the
  manager returned after the load, with the flag set and nothing copied in.
\<close>

lemma stored_record_without_load:
  assumes "configure E newconfig level s = (r, s')"
    and "\<forall>u x. LoadCameraInfo u x \<notin> set (events_since s s')"
    and "SetCameraInfo ci x \<in> set (events_since s s')"
  shows "\<exists>ci0. GetCameraInfo (Inr ci0) \<in> set (events_since s s') \<and>
               ci = checkRectify (defaultFrameId newconfig)
                      (fillFromConfig (defaultFrameId newconfig) ci0)"
  using assms
  by (cases rule: configure_paths) (auto simp: session_ok_notin)

lemma stored_record_after_load:
  assumes "configure E newconfig level s = (r, s')"
    and "LoadCameraInfo u (Inr b) \<in> set (events_since s s')"
    and "SetCameraInfo ci x \<in> set (events_since s s')"
  shows "\<exists>ci1. GetCameraInfo (Inr ci1) \<in> set (events_since s s') \<and>
               ci = checkRectify (defaultFrameId newconfig) ci1"
  using assms
  by (cases rule: configure_paths) (auto simp: session_ok_notin)

lemma requested_fields_without_load:
  assumes "configure E newconfig level s = (r, s')"
    and "\<forall>u x. LoadCameraInfo u x \<notin> set (events_since s s')"
    and "SetCameraInfo ci x \<in> set (events_since s s')"
  shows "hdr_frame_id (header ci) = frame_id (defaultFrameId newconfig) \<and>
         ci_height ci = height newconfig \<and> ci_width ci = width newconfig \<and>
         ci_binning_x ci = binning_x newconfig \<and> ci_binning_y ci = binning_y newconfig \<and>
         x_offset (roi ci) = roi_offset_x newconfig \<and>
         y_offset (roi ci) = roi_offset_y newconfig \<and>
         rect_height (roi ci) = roi_height newconfig \<and>
         rect_width (roi ci) = roi_width newconfig"
proof -
  from stored_record_without_load [OF assms] obtain ci0 where
    "ci = checkRectify (defaultFrameId newconfig)
            (fillFromConfig (defaultFrameId newconfig) ci0)"
    by blast
  then show ?thesis by simp
qed

lemma rectify_flag_without_load:
  assumes "configure E newconfig level s = (r, s')"
    and "\<forall>u x. LoadCameraInfo u x \<notin> set (events_since s s')"
    and "SetCameraInfo ci x \<in> set (events_since s s')"
  shows "do_rectify (roi ci)"
  using stored_record_without_load [OF assms] by auto

lemma rectify_flag_after_load:
  assumes "configure E newconfig level s = (r, s')"
    and "LoadCameraInfo u (Inr b) \<in> set (events_since s s')"
    and "SetCameraInfo ci x \<in> set (events_since s s')"
  shows "\<exists>ci1. GetCameraInfo (Inr ci1) \<in> set (events_since s s') \<and>
               (do_rectify (roi ci) \<longleftrightarrow>
                  ci_height ci1 = roi_height newconfig \<and> ci_width ci1 = roi_width newconfig \<or>
                  ci_width ci1 = width newconfig \<and> ci_height ci1 = height newconfig)"
proof -
  from stored_record_after_load [OF assms] obtain ci1 where
    "GetCameraInfo (Inr ci1) \<in> set (events_since s s')"
    "ci = checkRectify (defaultFrameId newconfig) ci1"
    by blast
  then show ?thesis by auto
qed

lemma frameCallback_paths:
  assumes "frameCallback E fr s = (r, s')"
  obtains
    (clock_failed) e where
      "events_since s s' = [TimeNow (Inl e)]" "r = Inl e"
  | (count_failed) t e where
      "events_since s s' = [TimeNow (Inr t), GetNumSubscribers (Inl e)]" "r = Inl e"
  | (no_subscriber) t where
      "events_since s s' = [TimeNow (Inr t), GetNumSubscribers (Inr 0)]" "r = Inr ()"
  | (conversion_threw) t n e where
      "0 < n"
      "events_since s s' = [TimeNow (Inr t), GetNumSubscribers (Inr n),
                            FrameToImage fr (Inl e)]"
      "r = Inl e"
  | (conversion_failed) t n img where
      "0 < n"
      "events_since s s' = [TimeNow (Inr t), GetNumSubscribers (Inr n),
                            FrameToImage fr (Inr (False, img)),
                            RosWarn ''Function frameToImage returned 0. No image published.'']"
      "r = Inr ()"
  | (fetch_failed) t n img e where
      "0 < n"
      "events_since s s' = [TimeNow (Inr t), GetNumSubscribers (Inr n),
                            FrameToImage fr (Inr (True, img)), GetCameraInfo (Inl e)]"
      "r = Inl e"
  | (published) t n img ci x where
      "0 < n"
      "events_since s s' = [TimeNow (Inr t), GetNumSubscribers (Inr n),
                            FrameToImage fr (Inr (True, img)), GetCameraInfo (Inr ci),
                            Publish (img\<lparr>img_header := (img_header img)\<lparr>hdr_stamp := t\<rparr>\<rparr>)
                                    (ci\<lparr>header := (header ci)\<lparr>hdr_stamp := t\<rparr>\<rparr>) x]"
      "r = x"
  using assms unfolding frameCallback_def
  by (auto elim!: traceE simp: Let_def events_since_append word_gt_0
           split: if_splits prod.splits)

lemmas node_defs =
  configure_def restartAndUpdate_def updateCameraInfo_def frameCallback_def defaultFrameId_def
  fillFromConfig_def checkRectify_def andThen_def catch_std_def call_def ros_log_def ret_def
  events_since_def calibration_data_def Let_def

lemmas sim_defs =
  sim_def sim_deps_def sim_files_def sim_convert_def sim_reject_def sim_node_def sim_config_def
  calib_vga_def empty_header_def empty_image_def sim_image_def
  calib_other_def sim_named_files_def sim_named_def

section \<open>The frame callback\<close>

text \<open>
  C6. On a frame arrival where the publisher reports zero subscribers, the callback
  converts nothing and publishes nothing: it reads the clock, asks for the subscriber
  count, and returns.
\<close>

theorem no_subscriber_no_conversion:
  assumes "frameCallback E fr s = (r, s')"
    and "GetNumSubscribers (Inr 0) \<in> set (events_since s s')"
  shows "(\<forall>f x. FrameToImage f x \<notin> set (events_since s s')) \<and>
         (\<forall>img ci x. Publish img ci x \<notin> set (events_since s s')) \<and>
         (\<exists>t. events_since s s' = [TimeNow (Inr t), GetNumSubscribers (Inr 0)]) \<and>
         r = Inr ()"
  using assms by (cases rule: frameCallback_paths) auto

theorem no_subscriber_no_conversion_witness:
  "GetNumSubscribers (Inr 0)
     \<in> set (events_since (sim_node 0) (snd (frameCallback sim 1 (sim_node 0)))) \<and>
   events_since (sim_node 0) (snd (frameCallback sim 1 (sim_node 0))) =
     [TimeNow (Inr \<lparr>sec = 1000, nsec = 5\<rparr>), GetNumSubscribers (Inr 0)] \<and>
   sim_published (world (snd (frameCallback sim 1 (sim_node 0)))) = [] \<and>
   fst (frameCallback sim 1 (sim_node 0)) = Inr ()"
  using no_subscriber_no_conversion
          [of sim 1 "sim_node 0" "fst (frameCallback sim 1 (sim_node 0))"
              "snd (frameCallback sim 1 (sim_node 0))"]
  by (simp add: node_defs sim_defs)



text \<open>
  C8. On a frame arrival with at least one subscriber where \<open>frameToImage\<close> reports
  failure, the callback logs the warning, publishes nothing, converts only once, and
  returns normally.
\<close>

theorem failed_conversion_drops_frame:
  assumes "frameCallback E fr s = (r, s')"
    and "FrameToImage fr (Inr (False, img)) \<in> set (events_since s s')"
  shows "(\<exists>t n. 0 < n \<and>
            events_since s s' =
              [TimeNow (Inr t), GetNumSubscribers (Inr n), FrameToImage fr (Inr (False, img)),
               RosWarn ''Function frameToImage returned 0. No image published.'']) \<and>
         (\<forall>im c x. Publish im c x \<notin> set (events_since s s')) \<and>
         r = Inr ()"
  using assms by (cases rule: frameCallback_paths) auto

theorem failed_conversion_drops_frame_witness:
  "FrameToImage 0 (Inr (False, empty_image))
     \<in> set (events_since (sim_node 2) (snd (frameCallback sim 0 (sim_node 2)))) \<and>
   events_since (sim_node 2) (snd (frameCallback sim 0 (sim_node 2))) =
     [TimeNow (Inr \<lparr>sec = 1000, nsec = 5\<rparr>), GetNumSubscribers (Inr 2),
      FrameToImage 0 (Inr (False, empty_image)),
      RosWarn ''Function frameToImage returned 0. No image published.''] \<and>
   sim_published (world (snd (frameCallback sim 0 (sim_node 2)))) = [] \<and>
   fst (frameCallback sim 0 (sim_node 2)) = Inr ()"
  using failed_conversion_drops_frame
          [of sim 0 "sim_node 2" "fst (frameCallback sim 0 (sim_node 2))"
              "snd (frameCallback sim 0 (sim_node 2))" empty_image]
  by (simp add: node_defs sim_defs)

section \<open>Reconfiguration\<close>

text \<open>
  When the requested frame id is empty, the call runs exactly as if \<open>camera\<close> had
  been requested: the configuration handed back, the configuration given to the camera
  session and the name given to the manager all carry \<open>camera\<close>, and so does the frame
  id of the record stored in a call that loads no calibration.
\<close>

lemma empty_frame_id_runs_as_camera:
  assumes "configure E newconfig level s = (r, s')"
    and "frame_id newconfig = ''''"
  shows "configure E (newconfig\<lparr>frame_id := ''camera''\<rparr>) level s = (r, s') \<and>
         (\<forall>c. r = Inr c \<longrightarrow> c = newconfig\<lparr>frame_id := ''camera''\<rparr>) \<and>
         (\<forall>c x. CamUpdateConfig c x \<in> set (events_since s s') \<longrightarrow>
                 c = newconfig\<lparr>frame_id := ''camera''\<rparr>) \<and>
         (\<forall>n x. SetCameraName n x \<in> set (events_since s s') \<longrightarrow> n = ''camera'') \<and>
         ((\<forall>u x. LoadCameraInfo u x \<notin> set (events_since s s')) \<longrightarrow>
          (\<forall>ci x. SetCameraInfo ci x \<in> set (events_since s s') \<longrightarrow>
                   hdr_frame_id (header ci) = ''camera''))"
proof -
  have eff: "defaultFrameId newconfig = newconfig\<lparr>frame_id := ''camera''\<rparr>"
    using assms(2) by (simp add: defaultFrameId_def)
  have same: "configure E (newconfig\<lparr>frame_id := ''camera''\<rparr>) level s = (r, s')"
    using assms by (simp add: configure_def defaultFrameId_def)
  have ret: "\<forall>c. r = Inr c \<longrightarrow> c = defaultFrameId newconfig"
    using assms(1)
    by (cases rule: configure_paths) (auto simp: after_catch_def split: sum.splits exn.splits)
  have session: "\<forall>c x. CamUpdateConfig c x \<in> set (events_since s s') \<longrightarrow>
                   c = defaultFrameId newconfig"
    using assms(1)
    by (cases rule: configure_paths) (auto dest: session_ok_config session_okD)
  have name: "\<forall>n x. SetCameraName n x \<in> set (events_since s s') \<longrightarrow> n = ''camera''"
    using assms
    by (cases rule: configure_paths) (auto simp: session_ok_notin)
  have stored: "(\<forall>u x. LoadCameraInfo u x \<notin> set (events_since s s')) \<longrightarrow>
          (\<forall>ci x. SetCameraInfo ci x \<in> set (events_since s s') \<longrightarrow>
                   hdr_frame_id (header ci) = ''camera'')"
    using requested_fields_without_load [OF assms(1)] assms(2) by auto
  from same ret session name stored show ?thesis unfolding eff by blast
qed

text \<open>
  When the requested calibration URL equals the stored one, the call selects no
  profile, validates nothing and loads nothing, and the calibration data (distortion
  model, D, K, R, P) of the record it stores is that of the record the manager handed
  out at the start of the call.
\<close>

lemma stored_url_keeps_calibration:
  assumes "configure E newconfig level s = (r, s')"
    and "camera_info_url newconfig = m_camera_info_url s"
  shows "(\<forall>n x. SetCameraName n x \<notin> set (events_since s s')) \<and>
         (\<forall>u x. ValidateURL u x \<notin> set (events_since s s')) \<and>
         (\<forall>u x. LoadCameraInfo u x \<notin> set (events_since s s')) \<and>
         (\<forall>ci' x. SetCameraInfo ci' x \<in> set (events_since s s') \<longrightarrow>
            (\<exists>ci0. GetCameraInfo (Inr ci0) \<in> set (events_since s s'))) \<and>
         (\<forall>ci0 ci' x. GetCameraInfo (Inr ci0) \<in> set (events_since s s') \<and>
                      SetCameraInfo ci' x \<in> set (events_since s s') \<longrightarrow>
            calibration_data ci' = calibration_data ci0)"
  using assms
  by (cases rule: configure_paths) (auto simp: session_ok_notin)

text \<open>
  C4. When the call reaches the validation of a requested URL and the validation fails,
  the URL is the requested one and differs from the stored one, no load is attempted,
  the warning is logged, and the one record the call stores has the calibration data of
  the one record the manager handed out; when the manager accepts that record, the call
  returns normally and logs no error.
\<close>

theorem invalid_url_keeps_calibration:
  assumes "configure E newconfig level s = (r, s')"
    and "ValidateURL u (Inr False) \<in> set (events_since s s')"
  shows "u = camera_info_url newconfig \<and> u \<noteq> m_camera_info_url s \<and>
         (\<forall>u' x. LoadCameraInfo u' x \<notin> set (events_since s s')) \<and>
         RosWarn (''Camera info URL not valid: '' @ u) \<in> set (events_since s s') \<and>
         (\<exists>ci0 ci' x.
            (\<forall>z. GetCameraInfo z \<in> set (events_since s s') \<longleftrightarrow> z = Inr ci0) \<and>
            (\<forall>c y. SetCameraInfo c y \<in> set (events_since s s') \<longleftrightarrow> c = ci' \<and> y = x) \<and>
            calibration_data ci' = calibration_data ci0 \<and>
            ((\<exists>b. x = Inr b) \<longrightarrow>
               r = Inr (defaultFrameId newconfig) \<and>
               (\<forall>m. RosError m \<notin> set (events_since s s'))))"
proof -
  let ?evs = "events_since s s'"
  from assms(1) show ?thesis
  proof (cases rule: configure_paths)
    case (url_invalid cam ci0 b x)
    let ?ci = "checkRectify (defaultFrameId newconfig)
                 (fillFromConfig (defaultFrameId newconfig) ci0)"
    note cam = session_ok_notin [OF url_invalid(1)]
    have u: "u = camera_info_url newconfig"
      using assms(2) url_invalid(3) by (auto simp: cam)
    have get: "\<forall>z. GetCameraInfo z \<in> set ?evs \<longleftrightarrow> z = Inr ci0"
      unfolding url_invalid(3) by (auto simp: cam)
    have put: "\<forall>c y. SetCameraInfo c y \<in> set ?evs \<longleftrightarrow> c = ?ci \<and> y = x"
      unfolding url_invalid(3) by (auto simp: cam)
    have noload: "\<forall>u' y. LoadCameraInfo u' y \<notin> set ?evs"
      unfolding url_invalid(3) by (auto simp: cam)
    have warn: "RosWarn (''Camera info URL not valid: '' @ u) \<in> set ?evs"
      unfolding url_invalid(3) u by simp
    have ok: "(\<exists>b. x = Inr b) \<longrightarrow>
               r = Inr (defaultFrameId newconfig) \<and> (\<forall>m. RosError m \<notin> set ?evs)"
      unfolding url_invalid(3,4)
      by (auto simp: cam in_error_log after_catch_def ignore_result_def)
    have "calibration_data ?ci = calibration_data ci0" by simp
    with get put ok have ex: "\<exists>ci0 ci' x.
            (\<forall>z. GetCameraInfo z \<in> set ?evs \<longleftrightarrow> z = Inr ci0) \<and>
            (\<forall>c y. SetCameraInfo c y \<in> set ?evs \<longleftrightarrow> c = ci' \<and> y = x) \<and>
            calibration_data ci' = calibration_data ci0 \<and>
            ((\<exists>b. x = Inr b) \<longrightarrow>
               r = Inr (defaultFrameId newconfig) \<and> (\<forall>m. RosError m \<notin> set ?evs))"
      by blast
    from u url_invalid(2) have differs: "u \<noteq> m_camera_info_url s" by simp
    show ?thesis
      by (intro conjI) (rule u, rule differs, rule noload, rule warn, rule ex)
  qed (use assms(2) in \<open>auto simp: session_ok_notin\<close>)
qed

theorem invalid_url_keeps_calibration_witness:
  "ValidateURL ''file:///nope.yaml'' (Inr False)
     \<in> set (events_since (sim_node 0)
              (snd (configure sim (sim_config ''cam0'' ''file:///nope.yaml'') 1 (sim_node 0)))) \<and>
   RosWarn (''Camera info URL not valid: '' @ ''file:///nope.yaml'')
     \<in> set (events_since (sim_node 0)
              (snd (configure sim (sim_config ''cam0'' ''file:///nope.yaml'') 1 (sim_node 0)))) \<and>
   fst (configure sim (sim_config ''cam0'' ''file:///nope.yaml'') 1 (sim_node 0)) =
     Inr (sim_config ''cam0'' ''file:///nope.yaml'') \<and>
   calibration_data (sim_cam_info (world
     (snd (configure sim (sim_config ''cam0'' ''file:///nope.yaml'') 1 (sim_node 0))))) =
     calibration_data calib_vga"
proof -
  let ?c = "sim_config ''cam0'' ''file:///nope.yaml''"
  let ?s1 = "snd (configure sim ?c 1 (sim_node 0))"
  have run: "configure sim ?c 1 (sim_node 0) = (fst (configure sim ?c 1 (sim_node 0)), ?s1)"
    by simp
  have invalid: "ValidateURL ''file:///nope.yaml'' (Inr False)
                   \<in> set (events_since (sim_node 0) ?s1)"
    by (simp add: node_defs sim_defs)
  have warned: "RosWarn (''Camera info URL not valid: '' @ ''file:///nope.yaml'')
                   \<in> set (events_since (sim_node 0) ?s1)"
    using invalid_url_keeps_calibration [OF run invalid] by blast
  have returned: "fst (configure sim ?c 1 (sim_node 0)) = Inr ?c"
    by (simp add: node_defs sim_defs)
  have retained: "calibration_data (sim_cam_info (world ?s1)) = calibration_data calib_vga"
    by (simp add: node_defs sim_defs)
  show ?thesis
    by (intro conjI) (rule invalid, rule warned, rule returned, rule retained)
qed

text \<open>
  C5, as stated, fails: an exception that is not derived from \<open>std::exception\<close> passes
  the handler and leaves \<open>configure\<close>, and nothing is logged. Here the camera session
  throws such an exception at a configuration of height 0.
\<close>

theorem other_exception_leaves_configure:
  "fst (configure (sim_deps sim_files sim_convert (sim_reject OtherException))
          ((sim_config ''cam0'' '''')\<lparr>height := 0\<rparr>) 0 (sim_node 0)) = Inl OtherException \<and>
   trace (snd (configure (sim_deps sim_files sim_convert (sim_reject OtherException))
          ((sim_config ''cam0'' '''')\<lparr>height := 0\<rparr>) 0 (sim_node 0))) =
     [CamUpdateConfig ((sim_config ''cam0'' '''')\<lparr>height := 0\<rparr>) (Inl OtherException)]"
  by (simp add: node_defs sim_defs)

text \<open>
  C5, amended. An exception derived from \<open>std::exception\<close> never leaves \<open>configure\<close>.
  When a call of the sequence throws one, every earlier call of the sequence had
  returned, no later call is made, the error is logged with the text of \<open>what()\<close>, and
  \<open>configure\<close> returns normally. The members of the node are unchanged. A following
  reconfiguration in which no call throws returns normally, logs no error, and ends by
  storing a record that the manager accepts.
\<close>

theorem std_exceptions_are_caught:
  assumes "configure E newconfig level s = (r, s')"
    and "configure E newconfig2 level2 s' = (r2, s2)"
  shows "(\<forall>e. r = Inl e \<longrightarrow> e = OtherException) \<and>
         (\<forall>ev\<in>set (events_since s s'). \<forall>what.
            thrown ev = Some (StdException what) \<longrightarrow>
              r = Inr (defaultFrameId newconfig) \<and>
              events_since s s' =
                butlast (butlast (events_since s s')) @
                [ev, RosError (''Error reconfiguring mono_camera node : '' @ what)] \<and>
              (\<forall>e\<in>set (butlast (butlast (events_since s s'))). thrown e = None)) \<and>
         m_ip s' = m_ip s \<and> m_guid s' = m_guid s \<and>
         m_camera_info_url s' = m_camera_info_url s \<and>
         ((\<forall>e\<in>set (events_since s' s2). thrown e = None) \<longrightarrow>
            r2 = Inr (defaultFrameId newconfig2) \<and>
            (\<forall>m. RosError m \<notin> set (events_since s' s2)) \<and>
            (\<exists>ci b. last (events_since s' s2) = SetCameraInfo ci (Inr b)))"
proof -
  have a: "\<forall>e. r = Inl e \<longrightarrow> e = OtherException"
    using assms(1)
    by (cases rule: configure_paths)
       (auto simp: after_catch_def ignore_result_def split: sum.splits exn.splits)
  have b: "\<forall>ev\<in>set (events_since s s'). \<forall>what.
            thrown ev = Some (StdException what) \<longrightarrow>
              r = Inr (defaultFrameId newconfig) \<and>
              events_since s s' =
                butlast (butlast (events_since s s')) @
                [ev, RosError (''Error reconfiguring mono_camera node : '' @ what)] \<and>
              (\<forall>e\<in>set (butlast (butlast (events_since s s'))). thrown e = None)"
    using assms(1)
    by (cases rule: configure_paths)
       (auto dest: session_okD
             simp: in_error_log error_log_def after_catch_def ignore_result_def exn_of_def
                   butlast_append
             split: sum.splits exn.splits)
  have c: "(\<forall>e\<in>set (events_since s' s2). thrown e = None) \<longrightarrow>
            r2 = Inr (defaultFrameId newconfig2) \<and>
            (\<forall>m. RosError m \<notin> set (events_since s' s2)) \<and>
            (\<exists>ci b. last (events_since s' s2) = SetCameraInfo ci (Inr b))"
    using assms(2)
    by (cases rule: configure_paths)
       (auto dest: session_okD
             simp: in_error_log error_log_def after_catch_def ignore_result_def exn_of_def
             split: sum.splits exn.splits)
  from a b c configure_members [OF assms(1)] show ?thesis by blast
qed

text \<open>
  The session throws a \<open>std::exception\<close> at a configuration of height 0; the next
  request, of height 100, goes through.
\<close>

theorem std_exceptions_are_caught_witness:
  "thrown (CamUpdateConfig ((sim_config ''cam0'' '''')\<lparr>height := 0\<rparr>)
             (Inl (StdException ''height'')) :: nat event) = Some (StdException ''height'') \<and>
   events_since (sim_node 0)
     (snd (configure sim ((sim_config ''cam0'' '''')\<lparr>height := 0\<rparr>) 3 (sim_node 0))) =
     [CamStop (Inr ()), CamStart ''192.168.0.2'' '''' (Inr ()),
      CamUpdateConfig ((sim_config ''cam0'' '''')\<lparr>height := 0\<rparr>)
        (Inl (StdException ''height'')),
      RosError ''Error reconfiguring mono_camera node : height''] \<and>
   fst (configure sim ((sim_config ''cam0'' '''')\<lparr>height := 0\<rparr>) 3 (sim_node 0)) =
     Inr ((sim_config ''cam0'' '''')\<lparr>height := 0\<rparr>) \<and>
   map thrown (events_since
     (snd (configure sim ((sim_config ''cam0'' '''')\<lparr>height := 0\<rparr>) 3 (sim_node 0)))
     (snd (configure sim (sim_config ''cam0'' '''') 0
        (snd (configure sim ((sim_config ''cam0'' '''')\<lparr>height := 0\<rparr>) 3 (sim_node 0))))))
     = [None, None, None] \<and>
   fst (configure sim (sim_config ''cam0'' '''') 0
     (snd (configure sim ((sim_config ''cam0'' '''')\<lparr>height := 0\<rparr>) 3 (sim_node 0)))) =
     Inr (sim_config ''cam0'' '''')"
  using std_exceptions_are_caught
          [of sim "(sim_config ''cam0'' '''')\<lparr>height := 0\<rparr>" 3 "sim_node 0"
              "fst (configure sim ((sim_config ''cam0'' '''')\<lparr>height := 0\<rparr>) 3 (sim_node 0))"
              "snd (configure sim ((sim_config ''cam0'' '''')\<lparr>height := 0\<rparr>) 3 (sim_node 0))"
              "sim_config ''cam0'' ''''" 0
              "fst (configure sim (sim_config ''cam0'' '''') 0
                 (snd (configure sim ((sim_config ''cam0'' '''')\<lparr>height := 0\<rparr>) 3
                    (sim_node 0))))"
              "snd (configure sim (sim_config ''cam0'' '''') 0
                 (snd (configure sim ((sim_config ''cam0'' '''')\<lparr>height := 0\<rparr>) 3
                    (sim_node 0))))"]
  by (simp add: node_defs sim_defs exn_of_def)

lemma url_differs_retriggers:
  assumes "configure E c l s = (r, s')" and "camera_info_url c \<noteq> m_camera_info_url s"
  shows "(\<forall>ci. GetCameraInfo (Inr ci) \<in> set (events_since s s') \<longrightarrow>
            (\<exists>x. SetCameraName (frame_id (defaultFrameId c)) x \<in> set (events_since s s'))) \<and>
         (\<forall>n b. SetCameraName n (Inr b) \<in> set (events_since s s') \<longrightarrow>
            (\<exists>x. ValidateURL (camera_info_url c) x \<in> set (events_since s s'))) \<and>
         (\<forall>u. ValidateURL u (Inr True) \<in> set (events_since s s') \<longrightarrow>
            (\<exists>x. LoadCameraInfo (camera_info_url c) x \<in> set (events_since s s')))"
  using assms
  by (cases rule: configure_paths) (auto simp: session_ok_notin)

lemma url_differs_reaches_manager:
  assumes "configure E c l s = (r, s')" and "camera_info_url c \<noteq> m_camera_info_url s"
    and "\<forall>e\<in>set (events_since s s'). thrown e = None"
  shows "(\<exists>b. SetCameraName (frame_id (defaultFrameId c)) (Inr b) \<in> set (events_since s s')) \<and>
         (\<exists>v. ValidateURL (camera_info_url c) (Inr v) \<in> set (events_since s s')) \<and>
         (ValidateURL (camera_info_url c) (Inr True) \<in> set (events_since s s') \<longrightarrow>
            (\<exists>b. LoadCameraInfo (camera_info_url c) (Inr b) \<in> set (events_since s s')))"
  using assms
  by (cases rule: configure_paths) (auto simp: session_ok_notin exn_of_def)

text \<open>
  C10. \<open>configure\<close> never changes the stored URL, so a request is compared with the
  URL of the construction and not with the URL of the previous request. Of two
  consecutive requests with the same URL, different from the stored one, each, when none
  of its calls throws, selects the profile again, validates the URL again, and loads
  again when the validation succeeds. In a call that is cut short, each of these steps
  is made as soon as the step before it has returned.
\<close>

theorem stored_url_is_never_updated:
  assumes "configure E c1 l1 s = (r1, s1)" and "configure E c2 l2 s1 = (r2, s2)"
    and "camera_info_url c1 = u" and "camera_info_url c2 = u"
    and "u \<noteq> m_camera_info_url s"
  shows "m_camera_info_url s1 = m_camera_info_url s \<and>
         m_camera_info_url s2 = m_camera_info_url s \<and>
         ((\<forall>e\<in>set (events_since s s1). thrown e = None) \<longrightarrow>
            (\<exists>b. SetCameraName (frame_id (defaultFrameId c1)) (Inr b)
                    \<in> set (events_since s s1)) \<and>
            (\<exists>v. ValidateURL u (Inr v) \<in> set (events_since s s1)) \<and>
            (ValidateURL u (Inr True) \<in> set (events_since s s1) \<longrightarrow>
               (\<exists>b. LoadCameraInfo u (Inr b) \<in> set (events_since s s1)))) \<and>
         ((\<forall>e\<in>set (events_since s1 s2). thrown e = None) \<longrightarrow>
            (\<exists>b. SetCameraName (frame_id (defaultFrameId c2)) (Inr b)
                    \<in> set (events_since s1 s2)) \<and>
            (\<exists>v. ValidateURL u (Inr v) \<in> set (events_since s1 s2)) \<and>
            (ValidateURL u (Inr True) \<in> set (events_since s1 s2) \<longrightarrow>
               (\<exists>b. LoadCameraInfo u (Inr b) \<in> set (events_since s1 s2)))) \<and>
         (\<forall>ci. GetCameraInfo (Inr ci) \<in> set (events_since s s1) \<longrightarrow>
            (\<exists>x. SetCameraName (frame_id (defaultFrameId c1)) x \<in> set (events_since s s1))) \<and>
         (\<forall>n b. SetCameraName n (Inr b) \<in> set (events_since s s1) \<longrightarrow>
            (\<exists>x. ValidateURL u x \<in> set (events_since s s1))) \<and>
         (\<forall>u'. ValidateURL u' (Inr True) \<in> set (events_since s s1) \<longrightarrow>
            (\<exists>x. LoadCameraInfo u x \<in> set (events_since s s1))) \<and>
         (\<forall>ci. GetCameraInfo (Inr ci) \<in> set (events_since s1 s2) \<longrightarrow>
            (\<exists>x. SetCameraName (frame_id (defaultFrameId c2)) x \<in> set (events_since s1 s2))) \<and>
         (\<forall>n b. SetCameraName n (Inr b) \<in> set (events_since s1 s2) \<longrightarrow>
            (\<exists>x. ValidateURL u x \<in> set (events_since s1 s2))) \<and>
         (\<forall>u'. ValidateURL u' (Inr True) \<in> set (events_since s1 s2) \<longrightarrow>
            (\<exists>x. LoadCameraInfo u x \<in> set (events_since s1 s2)))"
proof -
  have m1: "m_camera_info_url s1 = m_camera_info_url s"
    using configure_members [OF assms(1)] by simp
  have m2: "m_camera_info_url s2 = m_camera_info_url s1"
    using configure_members [OF assms(2)] by simp
  have u1: "camera_info_url c1 \<noteq> m_camera_info_url s" using assms(3,5) by simp
  have u2: "camera_info_url c2 \<noteq> m_camera_info_url s1" using assms(4,5) m1 by simp
  have full1: "(\<forall>e\<in>set (events_since s s1). thrown e = None) \<longrightarrow>
            (\<exists>b. SetCameraName (frame_id (defaultFrameId c1)) (Inr b)
                    \<in> set (events_since s s1)) \<and>
            (\<exists>v. ValidateURL u (Inr v) \<in> set (events_since s s1)) \<and>
            (ValidateURL u (Inr True) \<in> set (events_since s s1) \<longrightarrow>
               (\<exists>b. LoadCameraInfo u (Inr b) \<in> set (events_since s s1)))"
    using url_differs_reaches_manager [OF assms(1) u1] assms(3) by blast
  have full2: "(\<forall>e\<in>set (events_since s1 s2). thrown e = None) \<longrightarrow>
            (\<exists>b. SetCameraName (frame_id (defaultFrameId c2)) (Inr b)
                    \<in> set (events_since s1 s2)) \<and>
            (\<exists>v. ValidateURL u (Inr v) \<in> set (events_since s1 s2)) \<and>
            (ValidateURL u (Inr True) \<in> set (events_since s1 s2) \<longrightarrow>
               (\<exists>b. LoadCameraInfo u (Inr b) \<in> set (events_since s1 s2)))"
    using url_differs_reaches_manager [OF assms(2) u2] assms(4) by blast
  have part1: "(\<forall>ci. GetCameraInfo (Inr ci) \<in> set (events_since s s1) \<longrightarrow>
            (\<exists>x. SetCameraName (frame_id (defaultFrameId c1)) x \<in> set (events_since s s1))) \<and>
         (\<forall>n b. SetCameraName n (Inr b) \<in> set (events_since s s1) \<longrightarrow>
            (\<exists>x. ValidateURL u x \<in> set (events_since s s1))) \<and>
         (\<forall>u'. ValidateURL u' (Inr True) \<in> set (events_since s s1) \<longrightarrow>
            (\<exists>x. LoadCameraInfo u x \<in> set (events_since s s1)))"
    using url_differs_retriggers [OF assms(1) u1] assms(3) by simp
  have part2: "(\<forall>ci. GetCameraInfo (Inr ci) \<in> set (events_since s1 s2) \<longrightarrow>
            (\<exists>x. SetCameraName (frame_id (defaultFrameId c2)) x \<in> set (events_since s1 s2))) \<and>
         (\<forall>n b. SetCameraName n (Inr b) \<in> set (events_since s1 s2) \<longrightarrow>
            (\<exists>x. ValidateURL u x \<in> set (events_since s1 s2))) \<and>
         (\<forall>u'. ValidateURL u' (Inr True) \<in> set (events_since s1 s2) \<longrightarrow>
            (\<exists>x. LoadCameraInfo u x \<in> set (events_since s1 s2)))"
    using url_differs_retriggers [OF assms(2) u2] assms(4) by simp
  from m1 m2 have m2': "m_camera_info_url s2 = m_camera_info_url s" by simp
  from m1 m2' full1 full2 part1 part2 show ?thesis by (intro conjI) blast+
qed

theorem stored_url_is_never_updated_witness:
  "camera_info_url (sim_config ''cam0'' ''file:///vga.yaml'') = ''file:///vga.yaml'' \<and>
   ''file:///vga.yaml'' \<noteq> m_camera_info_url (sim_node 0) \<and>
   m_camera_info_url
     (snd (configure sim (sim_config ''cam0'' ''file:///vga.yaml'') 0
        (snd (configure sim (sim_config ''cam0'' ''file:///vga.yaml'') 0 (sim_node 0))))) =
     m_camera_info_url (sim_node 0) \<and>
   events_since
     (snd (configure sim (sim_config ''cam0'' ''file:///vga.yaml'') 0 (sim_node 0)))
     (snd (configure sim (sim_config ''cam0'' ''file:///vga.yaml'') 0
        (snd (configure sim (sim_config ''cam0'' ''file:///vga.yaml'') 0 (sim_node 0))))) =
     [CamUpdateConfig (sim_config ''cam0'' ''file:///vga.yaml'') (Inr ()),
      GetCameraInfo (Inr calib_vga),
      SetCameraName ''cam0'' (Inr True),
      ValidateURL ''file:///vga.yaml'' (Inr True),
      LoadCameraInfo ''file:///vga.yaml'' (Inr True),
      GetCameraInfo (Inr calib_vga),
      SetCameraInfo calib_vga (Inr True)] \<and>
   map thrown (events_since
     (snd (configure sim (sim_config ''cam0'' ''file:///vga.yaml'') 0 (sim_node 0)))
     (snd (configure sim (sim_config ''cam0'' ''file:///vga.yaml'') 0
        (snd (configure sim (sim_config ''cam0'' ''file:///vga.yaml'') 0 (sim_node 0)))))) =
     [None, None, None, None, None, None, None]"
proof -
  let ?c = "sim_config ''cam0'' ''file:///vga.yaml''"
  let ?s1 = "snd (configure sim ?c 0 (sim_node 0))"
  let ?s2 = "snd (configure sim ?c 0 ?s1)"
  have run1: "configure sim ?c 0 (sim_node 0) = (fst (configure sim ?c 0 (sim_node 0)), ?s1)"
    by simp
  have run2: "configure sim ?c 0 ?s1 = (fst (configure sim ?c 0 ?s1), ?s2)"
    by simp
  have url: "camera_info_url ?c = ''file:///vga.yaml''"
    by (simp add: sim_config_def)
  have differs: "''file:///vga.yaml'' \<noteq> m_camera_info_url (sim_node 0)"
    by (simp add: sim_node_def)
  have kept: "m_camera_info_url ?s2 = m_camera_info_url (sim_node 0)"
    using stored_url_is_never_updated [OF run1 run2 url url differs] by blast
  have again: "events_since ?s1 ?s2 =
     [CamUpdateConfig ?c (Inr ()), GetCameraInfo (Inr calib_vga),
      SetCameraName ''cam0'' (Inr True), ValidateURL ''file:///vga.yaml'' (Inr True),
      LoadCameraInfo ''file:///vga.yaml'' (Inr True), GetCameraInfo (Inr calib_vga),
      SetCameraInfo calib_vga (Inr True)]"
    by (simp add: node_defs sim_defs)
  have quiet: "map thrown (events_since ?s1 ?s2) = [None, None, None, None, None, None, None]"
    unfolding again by (simp add: exn_of_def)
  show ?thesis
    by (intro conjI) (rule url, rule differs, rule kept, rule again, rule quiet)
qed

section \<open>Where the code departs from its description\<close>

text \<open>
  C1. The manager holds a calibration of height 480 and width 640. The request has the
  stored URL, a resolution of 200 x 100 and a region of interest of 60 x 50: the
  calibration matches neither, and the call stores a record whose flag is set.
\<close>

theorem rectify_flag_true_without_match:
  "ci_height (sim_cam_info (world (sim_node 0))) = 480 \<and>
   ci_width (sim_cam_info (world (sim_node 0))) = 640 \<and>
   roi_height (sim_config ''cam0'' '''') = 50 \<and> roi_width (sim_config ''cam0'' '''') = 60 \<and>
   height (sim_config ''cam0'' '''') = 100 \<and> width (sim_config ''cam0'' '''') = 200 \<and>
   camera_info_url (sim_config ''cam0'' '''') = m_camera_info_url (sim_node 0) \<and>
   fst (configure sim (sim_config ''cam0'' '''') 0 (sim_node 0)) = Inr (sim_config ''cam0'' '''') \<and>
   do_rectify (roi (sim_cam_info (world (snd
     (configure sim (sim_config ''cam0'' '''') 0 (sim_node 0))))))"
  by (simp add: node_defs sim_defs)

text \<open>
  C2. The request names a new, valid URL whose calibration has no frame id, height 480,
  width 640, no binning and no region of interest. The call returns normally and the
  record it stores is that calibration: none of the requested frame id, resolution,
  binning and region of interest is in it.
\<close>

theorem loaded_record_replaces_requested_fields:
  "fst (configure sim (sim_config ''cam0'' ''file:///vga.yaml'') 0 (sim_node 0)) =
     Inr (sim_config ''cam0'' ''file:///vga.yaml'') \<and>
   sim_cam_info (world (snd
     (configure sim (sim_config ''cam0'' ''file:///vga.yaml'') 0 (sim_node 0)))) = calib_vga \<and>
   hdr_frame_id (header calib_vga) = '''' \<and>
   ci_height calib_vga = 480 \<and> ci_width calib_vga = 640 \<and>
   ci_binning_x calib_vga = 0 \<and> ci_binning_y calib_vga = 0 \<and>
   x_offset (roi calib_vga) = 0 \<and> y_offset (roi calib_vga) = 0 \<and>
   rect_height (roi calib_vga) = 0 \<and> rect_width (roi calib_vga) = 0 \<and>
   sim_config ''cam0'' ''file:///vga.yaml'' =
     \<lparr>frame_id = ''cam0'', height = 100, width = 200, binning_x = 1, binning_y = 1,
      roi_offset_x = 8, roi_offset_y = 4, roi_height = 50, roi_width = 60,
      camera_info_url = ''file:///vga.yaml''\<rparr>"
  by (simp add: node_defs sim_defs)

text \<open>
  C3. Two consecutive requests name the same URL, different from the stored one; the
  second only changes the frame id from \<open>cam0\<close> to \<open>cam1\<close>. Although the URL of the
  second request is that of the first, the call loads again, and the calibration data of
  the manager's record changes from that of \<open>calib_vga\<close> to that of \<open>calib_other\<close>.
\<close>

theorem repeated_url_reloads_calibration:
  "camera_info_url (sim_config ''cam1'' ''file:///NAME.yaml'') =
     camera_info_url (sim_config ''cam0'' ''file:///NAME.yaml'') \<and>
   calibration_data (sim_cam_info (world
     (snd (configure sim_named (sim_config ''cam0'' ''file:///NAME.yaml'') 0 (sim_node 0))))) =
     calibration_data calib_vga \<and>
   fst (configure sim_named (sim_config ''cam1'' ''file:///NAME.yaml'') 0
     (snd (configure sim_named (sim_config ''cam0'' ''file:///NAME.yaml'') 0 (sim_node 0)))) =
     Inr (sim_config ''cam1'' ''file:///NAME.yaml'') \<and>
   LoadCameraInfo ''file:///NAME.yaml'' (Inr True)
     \<in> set (events_since
         (snd (configure sim_named (sim_config ''cam0'' ''file:///NAME.yaml'') 0 (sim_node 0)))
         (snd (configure sim_named (sim_config ''cam1'' ''file:///NAME.yaml'') 0
           (snd (configure sim_named (sim_config ''cam0'' ''file:///NAME.yaml'') 0
             (sim_node 0)))))) \<and>
   calibration_data (sim_cam_info (world
     (snd (configure sim_named (sim_config ''cam1'' ''file:///NAME.yaml'') 0
       (snd (configure sim_named (sim_config ''cam0'' ''file:///NAME.yaml'') 0
         (sim_node 0))))))) =
     calibration_data calib_other \<and>
   calibration_data calib_other \<noteq> calibration_data calib_vga"
  by (simp add: node_defs sim_defs)

text \<open>
  C9. The request has an empty frame id and a new, valid URL whose calibration has no
  frame id. The configuration handed back and the configuration of the camera session
  carry \<open>camera\<close>, and the manager's profile is \<open>camera\<close>; the record that the call
  stores is the loaded calibration, whose frame id is empty.
\<close>

theorem loaded_record_loses_default_frame_id:
  "frame_id (sim_config '''' ''file:///vga.yaml'') = '''' \<and>
   fst (configure sim (sim_config '''' ''file:///vga.yaml'') 0 (sim_node 0)) =
     Inr (sim_config ''camera'' ''file:///vga.yaml'') \<and>
   sim_session (world (snd
     (configure sim (sim_config '''' ''file:///vga.yaml'') 0 (sim_node 0)))) =
     Some (sim_config ''camera'' ''file:///vga.yaml'') \<and>
   sim_camera_name (world (snd
     (configure sim (sim_config '''' ''file:///vga.yaml'') 0 (sim_node 0)))) = ''camera'' \<and>
   hdr_frame_id (header (sim_cam_info (world (snd
     (configure sim (sim_config '''' ''file:///vga.yaml'') 0 (sim_node 0)))))) = ''''"
  by (simp add: node_defs sim_defs)

end
